theory Spec2Isabelle
  imports Main "HOL-Library.Word" "HOL-Library.AList" "HOL-Library.List_Lexorder"
    "HOL-Library.Char_ord"
begin

section \<open>Images\<close>

text \<open>
  A pixel is an RGBA tuple of bytes, as \<open>getdata()\<close> yields it for an image in mode
  RGBA. An image carries its size and its pixel data as the flat row-major sequence
  that \<open>getdata()\<close> and \<open>putdata()\<close> exchange. Decoded source images are held in
  this RGBA form, so \<open>convert("RGBA")\<close> leaves them as they are.
\<close>

type_synonym pixel = "8 word \<times> 8 word \<times> 8 word \<times> 8 word"

record image =
  width :: nat
  height :: nat
  pixels :: "pixel list"

definition transparent :: pixel where
  "transparent = (0, 0, 0, 0)"

definition alpha :: "pixel \<Rightarrow> 8 word" where
  "alpha p = (case p of (r, g, b, a) \<Rightarrow> a)"

definition wf_image :: "image \<Rightarrow> bool" where
  "wf_image im = (length (pixels im) = width im * height im)"

definition getpixel :: "image \<Rightarrow> nat \<Rightarrow> nat \<Rightarrow> pixel" where
  "getpixel im x y = pixels im ! (y * width im + x)"

section \<open>File system and environment\<close>

type_synonym path = string

text \<open>
  A file holds either a decodable image or other bytes (\<open>None\<close>). The file system is
  a table from path strings to nodes, in directory-listing order; paths are compared
  as written.
\<close>

datatype node = Dir | File "image option"

type_synonym filesystem = "(path \<times> node) list"

datatype exn =
    SystemExit
  | AssertionError string
  | ValueError
  | ZeroDivisionError
  | FileNotFoundError
  | FileExistsError
  | IsADirectoryError
  | NotADirectoryError
  | UnidentifiedImageError
  | CalledProcessError

datatype message =
    Prompt path
  | Exiting
  | Pasting path int int
  | Reducing

record world =
  fs :: filesystem
  answer :: string
  stdout :: "message list"
  pngquant :: "(image \<Rightarrow> image option) option"
  resample :: "image \<Rightarrow> nat \<Rightarrow> nat \<Rightarrow> nat \<Rightarrow> nat \<Rightarrow> pixel"

section \<open>Paths\<close>

text \<open>\<open>posixpath.split\<close>, \<open>posixpath.dirname\<close>, \<open>posixpath.basename\<close> and
  \<open>posixpath.join\<close> on two components, as the standard library computes them.\<close>

definition all_sep :: "path \<Rightarrow> bool" where
  "all_sep p = list_all (\<lambda>c. c = CHR ''/'') p"

definition rstrip_sep :: "path \<Rightarrow> path" where
  "rstrip_sep p = rev (dropWhile (\<lambda>c. c = CHR ''/'') (rev p))"

definition path_split :: "path \<Rightarrow> path \<times> path" where
  "path_split p =
     (let head = rev (dropWhile (\<lambda>c. c \<noteq> CHR ''/'') (rev p));
          tail = rev (takeWhile (\<lambda>c. c \<noteq> CHR ''/'') (rev p))
      in (if head \<noteq> [] \<and> \<not> all_sep head then rstrip_sep head else head, tail))"

definition dirname :: "path \<Rightarrow> path" where
  "dirname p =
     (let head = rev (dropWhile (\<lambda>c. c \<noteq> CHR ''/'') (rev p))
      in if head \<noteq> [] \<and> \<not> all_sep head then rstrip_sep head else head)"

definition basename :: "path \<Rightarrow> path" where
  "basename p = rev (takeWhile (\<lambda>c. c \<noteq> CHR ''/'') (rev p))"

definition path_join :: "path \<Rightarrow> path \<Rightarrow> path" where
  "path_join a b =
     (if take 1 b = ''/'' then b
      else if a = [] \<or> last a = CHR ''/'' then a @ b
      else a @ ''/'' @ b)"

text \<open>\<open>str.lower\<close>; only the ASCII capitals have an ASCII lower-case form.\<close>

definition lower_char :: "char \<Rightarrow> char" where
  "lower_char c =
     (if CHR ''A'' \<le> c \<and> c \<le> CHR ''Z'' then char_of (of_char c + (32 :: nat)) else c)"

definition lower :: "string \<Rightarrow> string" where
  "lower s = map lower_char s"

section \<open>File operations\<close>

text \<open>The empty path names nothing, the root directory always exists, and every other
  path is looked up in the table.\<close>

definition lookup :: "filesystem \<Rightarrow> path \<Rightarrow> node option" where
  "lookup t p = (if p = [] then None else if all_sep p then Some Dir else map_of t p)"

definition exists :: "filesystem \<Rightarrow> path \<Rightarrow> bool" where
  "exists t p = (lookup t p \<noteq> None)"

definition isdir :: "filesystem \<Rightarrow> path \<Rightarrow> bool" where
  "isdir t p = (lookup t p = Some Dir)"

definition os_remove :: "filesystem \<Rightarrow> path \<Rightarrow> exn + filesystem" where
  "os_remove t p =
     (case lookup t p of
        None \<Rightarrow> Inl FileNotFoundError
      | Some Dir \<Rightarrow> Inl IsADirectoryError
      | Some (File c) \<Rightarrow> Inr (AList.delete p t))"

definition image_open :: "filesystem \<Rightarrow> path \<Rightarrow> exn + image" where
  "image_open t p =
     (case lookup t p of
        None \<Rightarrow> Inl FileNotFoundError
      | Some Dir \<Rightarrow> Inl IsADirectoryError
      | Some (File None) \<Rightarrow> Inl UnidentifiedImageError
      | Some (File (Some im)) \<Rightarrow> Inr im)"

text \<open>
  \<open>glob.glob(f"{directory}/*.png")\<close>: the entries directly under \<open>directory\<close> whose
  name ends in \<open>.png\<close> and does not begin with a dot, in listing order. The directory
  name is taken literally.
\<close>

definition png_match :: "path \<Rightarrow> path \<Rightarrow> bool" where
  "png_match directory p =
     (let pre = directory @ ''/''; name = drop (length pre) p
      in take (length pre) p = pre \<and> CHR ''/'' \<notin> set name \<and> 4 \<le> length name
         \<and> drop (length name - 4) name = ''.png'' \<and> take 1 name \<noteq> ''.'')"

definition glob_png :: "filesystem \<Rightarrow> path \<Rightarrow> path list" where
  "glob_png t directory = filter (png_match directory) (map fst t)"

text \<open>\<open>os.mkdir\<close> and \<open>os.makedirs(name, exist_ok=True)\<close>, the latter following the
  recursion of the standard library.\<close>

definition split_dir :: "path \<Rightarrow> path \<times> path" where
  "split_dir name =
     (let ht = path_split name in if snd ht = [] then path_split (fst ht) else ht)"

definition mkdir :: "filesystem \<Rightarrow> path \<Rightarrow> exn + filesystem" where
  "mkdir t name =
     (if name = [] then Inl FileNotFoundError
      else if exists t name then Inl FileExistsError
      else (let parent = fst (split_dir name)
            in if parent = [] then Inr (AList.update name Dir t)
               else (case lookup t parent of
                       None \<Rightarrow> Inl FileNotFoundError
                     | Some (File c) \<Rightarrow> Inl NotADirectoryError
                     | Some Dir \<Rightarrow> Inr (AList.update name Dir t))))"

definition mkdir_exist_ok :: "filesystem \<Rightarrow> path \<Rightarrow> exn option \<times> filesystem" where
  "mkdir_exist_ok t name =
     (case mkdir t name of
        Inr t' \<Rightarrow> (None, t')
      | Inl e \<Rightarrow> (if isdir t name then (None, t) else (Some e, t)))"

lemma length_rstrip_sep: "length (rstrip_sep p) \<le> length p"
  unfolding rstrip_sep_def
  by (metis length_dropWhile_le length_rev)

lemma length_path_split_fst: "length (fst (path_split p)) \<le> length p"
proof -
  have "length (rev (dropWhile (\<lambda>c. c \<noteq> CHR ''/'') (rev p))) \<le> length p"
    by (metis length_dropWhile_le length_rev)
  moreover have "length (rstrip_sep (rev (dropWhile (\<lambda>c. c \<noteq> CHR ''/'') (rev p))))
      \<le> length (rev (dropWhile (\<lambda>c. c \<noteq> CHR ''/'') (rev p)))"
    by (rule length_rstrip_sep)
  ultimately show ?thesis
    by (simp add: path_split_def Let_def)
qed

lemma length_path_split_less:
  assumes "snd (path_split p) \<noteq> []"
  shows "length (fst (path_split p)) < length p"
proof -
  let ?h = "rev (dropWhile (\<lambda>c. c \<noteq> CHR ''/'') (rev p))"
  let ?t = "takeWhile (\<lambda>c. c \<noteq> CHR ''/'') (rev p)"
  have t: "?t \<noteq> []" using assms by (simp add: path_split_def Let_def)
  have "length ?t + length ?h = length p"
    by (metis length_rev length_append takeWhile_dropWhile_id)
  with t have "length ?h < length p"
    by (cases ?t) auto
  moreover have "length (rstrip_sep ?h) \<le> length ?h"
    by (rule length_rstrip_sep)
  ultimately show ?thesis
    by (simp add: path_split_def Let_def)
qed

lemma length_split_dir_less:
  assumes "snd (split_dir name) \<noteq> []"
  shows "length (fst (split_dir name)) < length name"
proof (cases "snd (path_split name) = []")
  case True
  then have s: "split_dir name = path_split (fst (path_split name))"
    by (simp add: split_dir_def Let_def)
  with assms have "length (fst (split_dir name)) < length (fst (path_split name))"
    by (simp add: length_path_split_less)
  with length_path_split_fst [of name] show ?thesis by simp
next
  case False
  then have "split_dir name = path_split name"
    by (simp add: split_dir_def Let_def)
  with False show ?thesis by (simp add: length_path_split_less)
qed

function makedirs :: "filesystem \<Rightarrow> path \<Rightarrow> exn option \<times> filesystem" where
  "makedirs t name =
     (if fst (split_dir name) \<noteq> [] \<and> snd (split_dir name) \<noteq> []
         \<and> \<not> exists t (fst (split_dir name))
      then (case makedirs t (fst (split_dir name)) of
              (None, t1) \<Rightarrow>
                if snd (split_dir name) = ''.'' then (None, t1) else mkdir_exist_ok t1 name
            | (Some e, t1) \<Rightarrow>
                if e = FileExistsError
                then (if snd (split_dir name) = ''.'' then (None, t1)
                      else mkdir_exist_ok t1 name)
                else (Some e, t1))
      else mkdir_exist_ok t name)"
  by pat_completeness auto
termination
  by (relation "measure (\<lambda>(t, name). length name)") (auto simp: length_split_dir_less)

section \<open>Cell size\<close>

text \<open>
  Lines 83 to 88 of \<open>stitch_images\<close>: one pass over the files, opening each and
  keeping the largest of all widths and heights, starting from 0.
\<close>

fun max_image_size :: "filesystem \<Rightarrow> path list \<Rightarrow> nat \<Rightarrow> exn + nat" where
  "max_image_size t [] m = Inr m"
| "max_image_size t (img_file # rest) m =
     (case image_open t img_file of
        Inl e \<Rightarrow> Inl e
      | Inr img \<Rightarrow> max_image_size t rest (max m (max (width img) (height img))))"

definition larger_side :: "filesystem \<Rightarrow> path \<Rightarrow> nat" where
  "larger_side t p =
     (case image_open t p of Inl e \<Rightarrow> 0 | Inr img \<Rightarrow> max (width img) (height img))"

section \<open>Canvas, chroma key and paste\<close>

text \<open>\<open>Image.new('RGBA', (w, h))\<close>: negative sizes are refused, every pixel starts as
  \<open>(0, 0, 0, 0)\<close>.\<close>

definition image_new :: "int \<Rightarrow> int \<Rightarrow> exn + image" where
  "image_new w h =
     (if w < 0 \<or> h < 0 then Inl ValueError
      else Inr \<lparr>width = nat w, height = nat h,
                pixels = replicate (nat w * nat h) transparent\<rparr>)"

text \<open>\<open>fill_image.resize((w, h))\<close>: the result has the requested size; the resampling
  filter of the imaging library, a parameter here, gives each of its pixels.\<close>

definition resize :: "world \<Rightarrow> image \<Rightarrow> nat \<Rightarrow> nat \<Rightarrow> image" where
  "resize w im cw ch =
     \<lparr>width = cw, height = ch,
      pixels = map (\<lambda>k. resample w im cw ch (k mod cw) (k div cw)) [0..<cw * ch]\<rparr>"

text \<open>Lines 108 to 116: the key is compared with the first three components of each
  pixel; a match is replaced by \<open>(0, 0, 0, 0)\<close>, anything else is appended as it is.\<close>

definition key_item :: "int list \<Rightarrow> pixel \<Rightarrow> pixel" where
  "key_item colorkey item =
     (case item of (r, g, b, a) \<Rightarrow>
        if [uint r, uint g, uint b] = colorkey then (0, 0, 0, 0) else item)"

fun key_data :: "int list \<Rightarrow> pixel list \<Rightarrow> pixel list \<Rightarrow> pixel list" where
  "key_data colorkey [] new_data = new_data"
| "key_data colorkey (item # data) new_data =
     key_data colorkey data (new_data @ [key_item colorkey item])"

definition convert_RGBA :: "image \<Rightarrow> image" where
  "convert_RGBA img = img"

definition chroma_key :: "int list \<Rightarrow> image \<Rightarrow> image" where
  "chroma_key colorkey img0 =
     (let img = convert_RGBA img0; data = pixels img; new_data = key_data colorkey data []
      in img\<lparr>pixels := new_data\<rparr>)"

text \<open>
  \<open>result.paste(im, (x, y))\<close> and \<open>result.paste(im, (x, y), mask=im)\<close> of the imaging
  library: the box is clipped to the canvas; without a mask the source pixel replaces
  the canvas pixel, with the source as its own mask every band is blended by the
  source's alpha, in integer arithmetic.
\<close>

definition div255 :: "nat \<Rightarrow> nat" where
  "div255 a = (let tmp = a + 128 in (tmp div 256 + tmp) div 256)"

definition blend :: "8 word \<Rightarrow> 8 word \<Rightarrow> 8 word \<Rightarrow> 8 word" where
  "blend msk in1 in2 = of_nat (div255 (unat in1 * (255 - unat msk) + unat in2 * unat msk))"

definition blend_pixel :: "pixel \<Rightarrow> pixel \<Rightarrow> pixel" where
  "blend_pixel out src =
     (case out of (r1, g1, b1, a1) \<Rightarrow>
      case src of (r2, g2, b2, a2) \<Rightarrow>
        (blend a2 r1 r2, blend a2 g1 g2, blend a2 b1 b2, blend a2 a1 a2))"

definition in_box :: "image \<Rightarrow> int \<Rightarrow> int \<Rightarrow> nat \<Rightarrow> nat \<Rightarrow> bool" where
  "in_box im x_pos y_pos x y =
     (x_pos \<le> int x \<and> int x < x_pos + int (width im)
      \<and> y_pos \<le> int y \<and> int y < y_pos + int (height im))"

definition paste :: "image \<Rightarrow> image \<Rightarrow> int \<times> int \<Rightarrow> bool \<Rightarrow> image" where
  "paste result im box masked =
     (case box of (x_pos, y_pos) \<Rightarrow>
        result\<lparr>pixels :=
          map (\<lambda>k. let x = k mod width result; y = k div width result
                   in if in_box im x_pos y_pos x y
                      then (let src = getpixel im (nat (int x - x_pos)) (nat (int y - y_pos))
                            in if masked then blend_pixel (pixels result ! k) src else src)
                      else pixels result ! k)
              [0..<length (pixels result)]\<rparr>)"

section \<open>The stitching loop\<close>

text \<open>\<open>lazy_open_image\<close> is a generator that yields the opened image once.\<close>

definition lazy_open_image :: "filesystem \<Rightarrow> path \<Rightarrow> exn + image list" where
  "lazy_open_image t filename =
     (case image_open t filename of Inl e \<Rightarrow> Inl e | Inr img \<Rightarrow> Inr [img])"

text \<open>Lines 107 to 122, the body run for each image the generator yields.\<close>

definition paste_cell ::
  "int list \<Rightarrow> bool \<Rightarrow> image option \<Rightarrow> int \<times> int \<Rightarrow> image \<Rightarrow> image \<Rightarrow> image" where
  "paste_cell colorkey process_colorkey fill_image_resized pos img0 result =
     (let img = (if process_colorkey \<and> colorkey \<noteq> [] then chroma_key colorkey img0 else img0);
          result1 = (case fill_image_resized of
                       None \<Rightarrow> result
                     | Some f \<Rightarrow> paste result f pos False)
      in paste result1 img pos True)"

text \<open>Lines 100 to 122, over \<open>enumerate(image_files)\<close>.\<close>

fun stitch_loop ::
  "int list \<Rightarrow> bool \<Rightarrow> image option \<Rightarrow> bool \<Rightarrow> int \<Rightarrow> nat \<Rightarrow>
   (nat \<times> path) list \<Rightarrow> image \<Rightarrow> world \<Rightarrow> exn option \<times> image \<times> world" where
  "stitch_loop colorkey process_colorkey fill_image_resized verbose grid_cols cell_size
     [] result w = (None, result, w)"
| "stitch_loop colorkey process_colorkey fill_image_resized verbose grid_cols cell_size
     ((i, img_file) # rest) result w =
     (if grid_cols = 0 then (Some ZeroDivisionError, result, w)
      else
        (let x_pos = (int i mod grid_cols) * int cell_size;
             y_pos = (int i div grid_cols) * int cell_size;
             w1 = (if verbose then w\<lparr>stdout := stdout w @ [Pasting img_file x_pos y_pos]\<rparr>
                   else w)
         in case lazy_open_image (fs w1) img_file of
              Inl e \<Rightarrow> (Some e, result, w1)
            | Inr imgs \<Rightarrow>
                stitch_loop colorkey process_colorkey fill_image_resized verbose grid_cols
                  cell_size rest
                  (foldl (\<lambda>r img. paste_cell colorkey process_colorkey fill_image_resized
                                     (x_pos, y_pos) img r) result imgs)
                  w1))"

section \<open>Overwrite prompt, collection and output\<close>

text \<open>Lines 68 to 73. \<open>sys.exit()\<close> raises \<open>SystemExit\<close> with no code.\<close>

definition confirm_overwrite :: "world \<Rightarrow> path \<Rightarrow> exn option \<times> world" where
  "confirm_overwrite w output =
     (if exists (fs w) output then
        (let w1 = w\<lparr>stdout := stdout w @ [Prompt output]\<rparr>; response = answer w1
         in if lower response \<noteq> ''y''
            then (Some SystemExit, w1\<lparr>stdout := stdout w1 @ [Exiting]\<rparr>)
            else (case os_remove (fs w1) output of
                    Inl e \<Rightarrow> (Some e, w1)
                  | Inr t \<Rightarrow> (None, w1\<lparr>fs := t\<rparr>)))
      else (None, w))"

text \<open>Lines 75 to 80.\<close>

definition collect :: "filesystem \<Rightarrow> path \<Rightarrow> int \<Rightarrow> int \<Rightarrow> exn + path list" where
  "collect t directory grid_rows grid_cols =
     (let image_files = sort (glob_png t directory); num_images = length image_files
      in if num_images = 0
         then Inl (AssertionError ''No input images found in the directory.'')
         else (let num_cells = grid_rows * grid_cols
               in if num_cells < int num_images
                  then Inl (AssertionError ''Number of images exceeds the grid capacity.'')
                  else Inr image_files))"

text \<open>Lines 96 to 98; \<open>None\<close> and the empty string are both false.\<close>

definition open_fill :: "world \<Rightarrow> path option \<Rightarrow> nat \<Rightarrow> exn + image option" where
  "open_fill w fill cell_size =
     (case fill of
        None \<Rightarrow> Inr None
      | Some p \<Rightarrow>
          if p = [] then Inr None
          else (case image_open (fs w) p of
                  Inl e \<Rightarrow> Inl e
                | Inr fill_image \<Rightarrow> Inr (Some (resize w fill_image cell_size cell_size))))"

definition temp_file :: path where
  "temp_file = ''temp.png''"

definition image_save :: "filesystem \<Rightarrow> image \<Rightarrow> path \<Rightarrow> exn + filesystem" where
  "image_save t im p =
     (if isdir t p then Inl IsADirectoryError
      else if dirname p \<noteq> [] \<and> \<not> isdir t (dirname p) then Inl FileNotFoundError
      else Inr (AList.update p (File (Some im)) t))"

definition shutil_move :: "filesystem \<Rightarrow> path \<Rightarrow> path \<Rightarrow> exn + filesystem" where
  "shutil_move t src dst =
     (case lookup t src of
        None \<Rightarrow> Inl FileNotFoundError
      | Some n \<Rightarrow>
          (let real_dst = (if isdir t dst then path_join dst (basename src) else dst)
           in if isdir t dst \<and> exists t real_dst then Inl FileExistsError
              else if dirname real_dst \<noteq> [] \<and> \<not> isdir t (dirname real_dst)
                   then Inl FileNotFoundError
              else Inr (AList.update real_dst n (AList.delete src t))))"

text \<open>\<open>subprocess.run(['pngquant', '256', '-o', output, temp_file], check=True)\<close>: the
  tool is a parameter; it may be missing, and it may fail.\<close>

definition run_pngquant :: "world \<Rightarrow> filesystem \<Rightarrow> path \<Rightarrow> path \<Rightarrow> exn + filesystem" where
  "run_pngquant w t output src =
     (case pngquant w of
        None \<Rightarrow> Inl FileNotFoundError
      | Some tool \<Rightarrow>
          (case image_open t src of
             Inl e \<Rightarrow> Inl CalledProcessError
           | Inr im \<Rightarrow>
               (case tool im of
                  None \<Rightarrow> Inl CalledProcessError
                | Some q \<Rightarrow> Inr (AList.update output (File (Some q)) t))))"

text \<open>Lines 124 to 138.\<close>

definition finish :: "world \<Rightarrow> image \<Rightarrow> path \<Rightarrow> bool \<Rightarrow> bool \<Rightarrow> exn option \<times> world" where
  "finish w result output reduce verbose =
     (case makedirs (fs w) (dirname output) of
        (Some e, t1) \<Rightarrow> (Some e, w\<lparr>fs := t1\<rparr>)
      | (None, t1) \<Rightarrow>
          (case image_save t1 result temp_file of
             Inl e \<Rightarrow> (Some e, w\<lparr>fs := t1\<rparr>)
           | Inr t2 \<Rightarrow>
               (let w2 = (if reduce \<and> verbose then w\<lparr>stdout := stdout w @ [Reducing]\<rparr>
                          else w)
                in case (if reduce then run_pngquant w2 t2 output temp_file
                         else shutil_move t2 temp_file output) of
                     Inl e \<Rightarrow> (Some e, w2\<lparr>fs := t2\<rparr>)
                   | Inr t3 \<Rightarrow>
                       if exists t3 temp_file
                       then (case os_remove t3 temp_file of
                               Inl e \<Rightarrow> (Some e, w2\<lparr>fs := t3\<rparr>)
                             | Inr t4 \<Rightarrow> (None, w2\<lparr>fs := t4\<rparr>))
                       else (None, w2\<lparr>fs := t3\<rparr>))))"

section \<open>The whole run\<close>

text \<open>
  A run ends with the exception raised, if any, the canvas \<open>result\<close> if it was
  allocated, and the world as the run left it.
\<close>

record run =
  raised :: "exn option"
  canvas :: "image option"
  final :: world

definition exit_status :: "exn option \<Rightarrow> nat" where
  "exit_status r = (case r of None \<Rightarrow> 0 | Some SystemExit \<Rightarrow> 0 | Some e \<Rightarrow> 1)"

text \<open>Lines 75 to 138, on the world left by the overwrite prompt.\<close>

definition stitch_from ::
  "world \<Rightarrow> path \<Rightarrow> path \<Rightarrow> path option \<Rightarrow> bool \<Rightarrow> bool \<Rightarrow> int list \<Rightarrow> bool \<Rightarrow>
   int \<Rightarrow> int \<Rightarrow> run" where
  "stitch_from w1 directory output fill reduce verbose colorkey process_colorkey
     grid_rows grid_cols =
     (case collect (fs w1) directory grid_rows grid_cols of
        Inl e \<Rightarrow> \<lparr>raised = Some e, canvas = None, final = w1\<rparr>
      | Inr image_files \<Rightarrow>
     (case max_image_size (fs w1) image_files 0 of
        Inl e \<Rightarrow> \<lparr>raised = Some e, canvas = None, final = w1\<rparr>
      | Inr cell_size \<Rightarrow>
     (case image_new (int cell_size * grid_cols) (int cell_size * grid_rows) of
        Inl e \<Rightarrow> \<lparr>raised = Some e, canvas = None, final = w1\<rparr>
      | Inr result \<Rightarrow>
     (case open_fill w1 fill cell_size of
        Inl e \<Rightarrow> \<lparr>raised = Some e, canvas = Some result, final = w1\<rparr>
      | Inr fill_image_resized \<Rightarrow>
     (case stitch_loop colorkey process_colorkey fill_image_resized verbose grid_cols
             cell_size (enumerate 0 image_files) result w1 of
        (Some e, result1, w2) \<Rightarrow> \<lparr>raised = Some e, canvas = Some result1, final = w2\<rparr>
      | (None, result1, w2) \<Rightarrow>
          (case finish w2 result1 output reduce verbose of
             (r, w3) \<Rightarrow> \<lparr>raised = r, canvas = Some result1, final = w3\<rparr>))))))"

definition stitch_images ::
  "world \<Rightarrow> path \<Rightarrow> path \<Rightarrow> path option \<Rightarrow> bool \<Rightarrow> bool \<Rightarrow> int list \<Rightarrow> bool \<Rightarrow>
   int \<Rightarrow> int \<Rightarrow> run" where
  "stitch_images w directory output fill reduce verbose colorkey process_colorkey
     grid_rows grid_cols =
     (case confirm_overwrite w output of
        (Some e, w1) \<Rightarrow> \<lparr>raised = Some e, canvas = None, final = w1\<rparr>
      | (None, w1) \<Rightarrow>
          stitch_from w1 directory output fill reduce verbose colorkey process_colorkey
            grid_rows grid_cols)"

text \<open>The last lines of the script: the output file name is joined to the directory of
  the script's own path.\<close>

definition output_path :: "path \<Rightarrow> path \<Rightarrow> path" where
  "output_path script out_file = path_join (dirname script) out_file"

section \<open>Example inputs\<close>

definition ex_tall :: image where
  "ex_tall = \<lparr>width = 2, height = 3, pixels = replicate 6 (7, 7, 7, 255)\<rparr>"
definition ex_dot :: image where
  "ex_dot = \<lparr>width = 1, height = 1, pixels = [(255, 0, 228, 255)]\<rparr>"
definition ex_wide :: image where
  "ex_wide = \<lparr>width = 5, height = 1, pixels = replicate 5 (1, 2, 3, 4)\<rparr>"
definition ex_tree :: filesystem where
  "ex_tree = [(''in/b.png'', File (Some ex_dot)), (''in/a.png'', File (Some ex_tall))]"

definition ex_world :: world where
  "ex_world = \<lparr>fs = ex_tree @ [(''out'', Dir), (''out/old.png'', File None)],
     answer = ''no'', stdout = [], pngquant = None,
     resample = (\<lambda>im cw ch x y. (9, 9, 9, 255))\<rparr>"

section \<open>Files and the size pass\<close>

lemma lookup_update:
  "lookup (AList.update k v t) q =
     (if q = [] then None else if all_sep q then Some Dir
      else if q = k then Some v else map_of t q)"
  by (simp add: lookup_def update_conv')

lemma lookup_delete:
  "lookup (AList.delete k t) q =
     (if q = [] then None else if all_sep q then Some Dir
      else if q = k then None else map_of t q)"
  by (simp add: lookup_def delete_conv')

lemma image_open_Inr:
  "image_open t p = Inr im \<longleftrightarrow> lookup t p = Some (File (Some im))"
  by (auto simp: image_open_def split: option.splits node.splits)

lemma larger_side_Inr: "image_open t p = Inr im \<Longrightarrow> larger_side t p = max (width im) (height im)"
  by (simp add: larger_side_def)



lemma max_image_size_opens:
  "max_image_size t files m = Inr c \<Longrightarrow> f \<in> set files \<Longrightarrow> \<exists>im. image_open t f = Inr im"
  by (induction files arbitrary: m) (auto split: sum.splits)

lemma max_image_size_Max:
  "max_image_size t files m = Inr c \<Longrightarrow> c = Max (insert m (larger_side t ` set files))"
proof (induction files arbitrary: m)
  case Nil
  then show ?case by simp
next
  case (Cons f files)
  from Cons.prems obtain im where im: "image_open t f = Inr im"
    and rest: "max_image_size t files (max m (max (width im) (height im))) = Inr c"
    by (auto split: sum.splits)
  have "c = Max (insert (max m (larger_side t f)) (larger_side t ` set files))"
    using Cons.IH [OF rest] im by (simp add: larger_side_Inr)
  also have "\<dots> = Max (insert m (larger_side t ` set (f # files)))"
    by (cases "set files = {}") (simp_all add: max.assoc)
  finally show ?case .
qed

lemma max_image_size_mono:
  "max_image_size t files m = Inr c \<Longrightarrow> m \<le> m' \<Longrightarrow>
   (\<And>f. f \<in> set files \<Longrightarrow> \<exists>im. image_open t' f = Inr im \<and> larger_side t f \<le> larger_side t' f) \<Longrightarrow>
   \<exists>c'. max_image_size t' files m' = Inr c' \<and> c \<le> c'"
proof (induction files arbitrary: m m')
  case Nil
  then show ?case by simp
next
  case (Cons f files)
  from Cons.prems(1) obtain im where im: "image_open t f = Inr im"
    and rest: "max_image_size t files (max m (max (width im) (height im))) = Inr c"
    by (auto split: sum.splits)
  from Cons.prems(3) [of f] obtain im' where im': "image_open t' f = Inr im'"
    and le: "larger_side t f \<le> larger_side t' f" by auto
  have "max m (max (width im) (height im)) \<le> max m' (max (width im') (height im'))"
    using le Cons.prems(2) im im' by (simp add: larger_side_Inr) linarith
  from Cons.IH [OF rest this] Cons.prems(3) im' show ?case by simp
qed


lemma image_open_update:
  assumes "image_open t p = Inr im"
  shows "image_open (AList.update p (File (Some im')) t) f =
           (if f = p then Inr im' else image_open t f)"
proof -
  from assms have "p \<noteq> [] \<and> \<not> all_sep p"
    by (auto simp: image_open_def lookup_def split: if_splits)
  then show ?thesis
    unfolding image_open_def lookup_update by (auto simp: lookup_def)
qed

text \<open>
  C1: when the size pass succeeds on a non-empty list of files, every file was opened,
  the cell size is the maximum over the files of the larger of width and height, and
  replacing one file's image by one whose larger side is no smaller gives a cell size
  that is no smaller and at least that larger side.
\<close>

theorem cell_size_is_max:
  assumes "max_image_size t image_files 0 = Inr cell_size" and "image_files \<noteq> []"
  shows "(\<forall>f \<in> set image_files. \<exists>img. image_open t f = Inr img) \<and>
         cell_size = Max (larger_side t ` set image_files) \<and>
         (\<forall>p (img' :: image). p \<in> set image_files \<and> larger_side t p \<le> max (width img') (height img') \<longrightarrow>
            (\<exists>c'. max_image_size (AList.update p (File (Some img')) t) image_files 0 = Inr c'
                  \<and> cell_size \<le> c' \<and> max (width img') (height img') \<le> c'))"
proof (intro conjI allI impI ballI)
  fix f assume "f \<in> set image_files"
  with assms(1) show "\<exists>img. image_open t f = Inr img"
    by (rule max_image_size_opens)
next
  have "cell_size = Max (insert 0 (larger_side t ` set image_files))"
    using assms(1) by (rule max_image_size_Max)
  also have "\<dots> = Max (larger_side t ` set image_files)"
    using assms(2) by (simp add: Max_insert)
  finally show "cell_size = Max (larger_side t ` set image_files)" .
next
  fix p and img' :: image
  assume a: "p \<in> set image_files \<and> larger_side t p \<le> max (width img') (height img')"
  let ?t' = "AList.update p (File (Some img')) t"
  from a assms(1) obtain im where im: "image_open t p = Inr im"
    using max_image_size_opens by blast
  have op: "\<And>f. image_open ?t' f = (if f = p then Inr img' else image_open t f)"
    by (rule image_open_update [OF im])
  have "\<exists>im. image_open ?t' f = Inr im \<and> larger_side t f \<le> larger_side ?t' f"
    if "f \<in> set image_files" for f
  proof (cases "f = p")
    case True
    with a show ?thesis by (simp add: op larger_side_def)
  next
    case False
    with max_image_size_opens [OF assms(1) that] show ?thesis
      by (auto simp: op larger_side_def)
  qed
  from max_image_size_mono [OF assms(1) le_refl this]
  obtain c' where c': "max_image_size ?t' image_files 0 = Inr c'" "cell_size \<le> c'"
    by blast
  have "c' = Max (insert 0 (larger_side ?t' ` set image_files))"
    using c'(1) by (rule max_image_size_Max)
  moreover have "larger_side ?t' p = max (width img') (height img')"
    by (simp add: op larger_side_def)
  ultimately have "max (width img') (height img') \<le> c'"
    using a by (metis List.finite_set Max_ge finite_imageI finite_insert image_eqI insertCI)
  with c' show "\<exists>c'. max_image_size ?t' image_files 0 = Inr c'
                  \<and> cell_size \<le> c' \<and> max (width img') (height img') \<le> c'"
    by blast
qed

lemma ex_tree_opens:
  "image_open ex_tree ''in/a.png'' = Inr ex_tall" "image_open ex_tree ''in/b.png'' = Inr ex_dot"
  by (simp_all add: image_open_def lookup_def ex_tree_def all_sep_def)

theorem cell_size_is_max_witness:
  "max_image_size ex_tree [''in/a.png'', ''in/b.png''] 0 = Inr 3 \<and>
   3 = Max (larger_side ex_tree ` set [''in/a.png'', ''in/b.png'']) \<and>
   (\<exists>c'. max_image_size (AList.update ''in/b.png'' (File (Some ex_wide)) ex_tree)
            [''in/a.png'', ''in/b.png''] 0 = Inr c' \<and> 3 \<le> c' \<and> 5 \<le> c')"
proof -
  have run: "max_image_size ex_tree [''in/a.png'', ''in/b.png''] 0 = Inr 3"
    by (simp add: ex_tree_opens ex_tall_def ex_dot_def)
  have ne: "[''in/a.png'', ''in/b.png''] \<noteq> []" by simp
  have mw: "max (width ex_wide) (height ex_wide) = 5"
    by (simp add: ex_wide_def)
  have side: "''in/b.png'' \<in> set [''in/a.png'', ''in/b.png''] \<and>
      larger_side ex_tree ''in/b.png'' \<le> max (width ex_wide) (height ex_wide)"
    by (simp add: larger_side_def ex_tree_opens ex_dot_def ex_wide_def)
  note T = cell_size_is_max [OF run ne]
  have M: "3 = Max (larger_side ex_tree ` set [''in/a.png'', ''in/b.png''])"
    by (rule conjunct1 [OF conjunct2 [OF T]])
  have "\<exists>c'. max_image_size (AList.update ''in/b.png'' (File (Some ex_wide)) ex_tree)
            [''in/a.png'', ''in/b.png''] 0 = Inr c' \<and> 3 \<le> c'
            \<and> max (width ex_wide) (height ex_wide) \<le> c'"
    using conjunct2 [OF conjunct2 [OF T]] side by blast
  then have E: "\<exists>c'. max_image_size (AList.update ''in/b.png'' (File (Some ex_wide)) ex_tree)
            [''in/a.png'', ''in/b.png''] 0 = Inr c' \<and> 3 \<le> c' \<and> 5 \<le> c'"
    unfolding mw .
  from run M E show ?thesis by blast
qed

section \<open>Overwrite prompt and rejection\<close>

text \<open>
  C8: when the output path exists and the answer to the prompt, lower-cased, is not
  \<open>y\<close>, the run ends with \<open>SystemExit\<close> after the prompt and the exit message, with
  no canvas and the file system as it was. \<open>SystemExit\<close> without a code is exit status
  0; every other exception is exit status 1.
\<close>

theorem decline_overwrite:
  assumes "exists (fs w) output" and "lower (answer w) \<noteq> ''y''"
  shows "stitch_images w directory output fill reduce verbose colorkey process_colorkey
           grid_rows grid_cols =
         \<lparr>raised = Some SystemExit, canvas = None,
          final = w\<lparr>stdout := stdout w @ [Prompt output, Exiting]\<rparr>\<rparr>
         \<and> fs (final (stitch_images w directory output fill reduce verbose colorkey
                  process_colorkey grid_rows grid_cols)) = fs w
         \<and> exit_status (Some SystemExit) = 0
         \<and> (\<forall>e. e \<noteq> SystemExit \<longrightarrow> exit_status (Some e) = 1)"
proof -
  have "\<And>e. e \<noteq> SystemExit \<Longrightarrow> exit_status (Some e) = 1"
    by (simp add: exit_status_def split: exn.splits)
  then show ?thesis
    using assms by (simp add: stitch_images_def confirm_overwrite_def Let_def exit_status_def)
qed

lemma ex_world_exists: "exists (fs ex_world) ''out/old.png''"
  by (simp add: ex_world_def ex_tree_def exists_def lookup_def all_sep_def)

lemma ex_world_declines: "lower (answer ex_world) \<noteq> ''y''"
  by (simp add: ex_world_def lower_def)

theorem decline_overwrite_witness:
  "exists (fs ex_world) ''out/old.png'' \<and> lower (answer ex_world) \<noteq> ''y'' \<and>
   raised (stitch_images ex_world ''in'' ''out/old.png'' None False False [255, 0, 228] False 2 2)
     = Some SystemExit \<and>
   fs (final (stitch_images ex_world ''in'' ''out/old.png'' None False False [255, 0, 228]
                False 2 2)) = fs ex_world"
  using decline_overwrite [OF ex_world_exists ex_world_declines, of "''in''" None False False
     "[255, 0, 228]" False 2 2] ex_world_exists ex_world_declines
  by simp

lemma sort_Nil_iff: "sort xs = [] \<longleftrightarrow> xs = []"
  by (metis length_sort length_0_conv)

text \<open>
  C7: once past the overwrite prompt, a run that finds no matching file raises the
  first assertion, and a run that finds more files than \<open>grid_rows * grid_cols\<close> raises
  the second; in both the canvas was never allocated and the world is the one the
  prompt left.
\<close>

theorem rejects_before_canvas:
  assumes "confirm_overwrite w output = (None, w1)"
  shows "(glob_png (fs w1) directory = [] \<longrightarrow>
            stitch_images w directory output fill reduce verbose colorkey process_colorkey
              grid_rows grid_cols =
            \<lparr>raised = Some (AssertionError ''No input images found in the directory.''),
             canvas = None, final = w1\<rparr>)
       \<and> (glob_png (fs w1) directory \<noteq> []
            \<and> grid_rows * grid_cols < int (length (glob_png (fs w1) directory)) \<longrightarrow>
            stitch_images w directory output fill reduce verbose colorkey process_colorkey
              grid_rows grid_cols =
            \<lparr>raised = Some (AssertionError ''Number of images exceeds the grid capacity.''),
             canvas = None, final = w1\<rparr>)"
  using assms
  by (simp add: stitch_images_def stitch_from_def collect_def Let_def sort_Nil_iff)


lemma ex_world_no_prompt: "confirm_overwrite ex_world ''out/new.png'' = (None, ex_world)"
  by (simp add: confirm_overwrite_def exists_def lookup_def all_sep_def ex_world_def ex_tree_def)

lemma ex_world_glob_in: "glob_png (fs ex_world) ''in'' = [''in/b.png'', ''in/a.png'']"
  by (simp add: glob_png_def png_match_def ex_world_def ex_tree_def)

lemma ex_world_glob_empty: "glob_png (fs ex_world) ''empty'' = []"
  by (simp add: glob_png_def png_match_def ex_world_def ex_tree_def)

theorem rejects_before_canvas_witness:
  "confirm_overwrite ex_world ''out/new.png'' = (None, ex_world) \<and>
   glob_png (fs ex_world) ''empty'' = [] \<and>
   stitch_images ex_world ''empty'' ''out/new.png'' None False False [255, 0, 228] False 2 2 =
     \<lparr>raised = Some (AssertionError ''No input images found in the directory.''),
      canvas = None, final = ex_world\<rparr> \<and>
   glob_png (fs ex_world) ''in'' \<noteq> [] \<and>
   (1 :: int) * 1 < int (length (glob_png (fs ex_world) ''in'')) \<and>
   stitch_images ex_world ''in'' ''out/new.png'' None False False [255, 0, 228] False 1 1 =
     \<lparr>raised = Some (AssertionError ''Number of images exceeds the grid capacity.''),
      canvas = None, final = ex_world\<rparr>"
proof -
  note T1 = rejects_before_canvas [OF ex_world_no_prompt, of "''empty''" None False False
      "[255, 0, 228]" False 2 2]
  note T2 = rejects_before_canvas [OF ex_world_no_prompt, of "''in''" None False False
      "[255, 0, 228]" False 1 1]
  have g: "glob_png (fs ex_world) ''in'' \<noteq> [] \<and>
      (1 :: int) * 1 < int (length (glob_png (fs ex_world) ''in''))"
    by (simp add: ex_world_glob_in)
  from conjunct1 [OF T1] ex_world_glob_empty conjunct2 [OF T2] g ex_world_no_prompt
  show ?thesis by blast
qed

section \<open>Chroma key\<close>

lemma key_data_map: "key_data colorkey data new_data = new_data @ map (key_item colorkey) data"
  by (induction data arbitrary: new_data) simp_all

lemma chroma_key_pixels: "pixels (chroma_key colorkey img) = map (key_item colorkey) (pixels img)"
  by (simp add: chroma_key_def convert_RGBA_def key_data_map)

lemma chroma_key_size:
  "width (chroma_key colorkey img) = width img" "height (chroma_key colorkey img) = height img"
  by (simp_all add: chroma_key_def convert_RGBA_def)

text \<open>
  C3: the chroma-key pass maps every pixel through \<open>key_item\<close> and keeps the size; a
  pixel is replaced by \<open>(0, 0, 0, 0)\<close> exactly when its three colour components, whatever
  its alpha, are the key, and is kept as it is otherwise; the loop body pastes the keyed
  image exactly when \<open>process_colorkey\<close> is set and the key is not empty. With the
  default key, \<open>(255, 0, 228)\<close> is keyed out and \<open>(255, 0, 227)\<close> is not.
\<close>

theorem chroma_key_exact_match:
  "pixels (chroma_key colorkey img) = map (key_item colorkey) (pixels img)
   \<and> width (chroma_key colorkey img) = width img
   \<and> height (chroma_key colorkey img) = height img
   \<and> (\<forall>r g b a. key_item colorkey (r, g, b, a) =
          (if colorkey = [uint r, uint g, uint b] then (0, 0, 0, 0) else (r, g, b, a)))
   \<and> (\<forall>pos result fill_image_resized.
          paste_cell colorkey process_colorkey fill_image_resized pos img result =
          paste (case fill_image_resized of None \<Rightarrow> result
                 | Some f \<Rightarrow> paste result f pos False)
            (if process_colorkey \<and> colorkey \<noteq> [] then chroma_key colorkey img else img)
            pos True)
   \<and> (\<forall>a. key_item [255, 0, 228] (255, 0, 228, a) = transparent)
   \<and> (\<forall>a. key_item [255, 0, 228] (255, 0, 227, a) = (255, 0, 227, a))"
  by (auto simp: chroma_key_pixels chroma_key_size key_item_def paste_cell_def Let_def
      transparent_def)

section \<open>The canvas\<close>

lemma paste_size:
  "width (paste result im box masked) = width result"
  "height (paste result im box masked) = height result"
  "length (pixels (paste result im box masked)) = length (pixels result)"
  by (simp_all add: paste_def split: prod.splits)

lemma paste_cell_size:
  "width (paste_cell ck pc fo pos img result) = width result"
  "height (paste_cell ck pc fo pos img result) = height result"
  "length (pixels (paste_cell ck pc fo pos img result)) = length (pixels result)"
  by (simp_all add: paste_cell_def Let_def paste_size split: option.splits)

lemma stitch_loop_frame:
  "stitch_loop ck pc fo verbose grid_cols cell_size files result w = (r, result', w') \<Longrightarrow>
   fs w' = fs w \<and> answer w' = answer w \<and> pngquant w' = pngquant w \<and> resample w' = resample w
   \<and> width result' = width result \<and> height result' = height result
   \<and> length (pixels result') = length (pixels result)"
proof (induction files arbitrary: result w)
  case Nil
  then show ?case by simp
next
  case (Cons a files)
  obtain i f where a: "a = (i, f)" by (cases a)
  show ?case
  proof (cases "grid_cols = 0")
    case True
    with Cons.prems a show ?thesis by simp
  next
    case False
    let ?w1 = "if verbose then w\<lparr>stdout := stdout w @
        [Pasting f ((int i mod grid_cols) * int cell_size) ((int i div grid_cols) * int cell_size)]\<rparr>
        else w"
    show ?thesis
    proof (cases "lazy_open_image (fs ?w1) f")
      case (Inl e)
      with Cons.prems a False show ?thesis by (auto simp: Let_def split: if_splits)
    next
      case (Inr imgs)
      then obtain img where imgs: "imgs = [img]"
        by (auto simp: lazy_open_image_def split: sum.splits)
      from Cons.prems a False Inr imgs
      have "stitch_loop ck pc fo verbose grid_cols cell_size files
              (paste_cell ck pc fo ((int i mod grid_cols) * int cell_size,
                 (int i div grid_cols) * int cell_size) img result) ?w1 = (r, result', w')"
        by (simp add: Let_def)
      from Cons.IH [OF this] show ?thesis by (simp add: paste_cell_size)
    qed
  qed
qed


lemma stitch_loop_runs:
  assumes "grid_cols \<noteq> 0"
    and "\<forall>p \<in> set files. \<exists>img. image_open (fs w) (snd p) = Inr img"
  shows "\<exists>result' w'. stitch_loop ck pc fo verbose grid_cols cell_size files result w
           = (None, result', w')"
  using assms(2)
proof (induction files arbitrary: result w)
  case Nil
  then show ?case by simp
next
  case (Cons a files)
  obtain i f where a: "a = (i, f)" by (cases a)
  from Cons.prems a obtain img where img: "image_open (fs w) f = Inr img" by auto
  let ?w1 = "if verbose then w\<lparr>stdout := stdout w @
        [Pasting f ((int i mod grid_cols) * int cell_size) ((int i div grid_cols) * int cell_size)]\<rparr>
        else w"
  have fs1: "fs ?w1 = fs w" by simp
  have "\<forall>p \<in> set files. \<exists>img. image_open (fs ?w1) (snd p) = Inr img"
    using Cons.prems unfolding fs1 by simp
  from Cons.IH [OF this] obtain result' w' where
    "stitch_loop ck pc fo verbose grid_cols cell_size files
              (paste_cell ck pc fo ((int i mod grid_cols) * int cell_size,
                 (int i div grid_cols) * int cell_size) img result) ?w1 = (None, result', w')"
    by blast
  with assms(1) a img show ?case
    by (auto simp: Let_def lazy_open_image_def)
qed

lemma image_new_canvas:
  assumes "0 \<le> grid_rows" and "0 \<le> grid_cols"
  shows "image_new (int cell_size * grid_cols) (int cell_size * grid_rows) =
           Inr \<lparr>width = cell_size * nat grid_cols, height = cell_size * nat grid_rows,
                pixels = replicate (cell_size * nat grid_cols * (cell_size * nat grid_rows))
                           transparent\<rparr>"
proof -
  have "0 \<le> int cell_size * grid_cols" "0 \<le> int cell_size * grid_rows"
    using assms by simp_all
  then show ?thesis
    by (simp add: image_new_def nat_mult_distrib not_less)
qed

lemma in_set_enumerate_snd: "(i, f) \<in> set (enumerate n xs) \<Longrightarrow> f \<in> set xs"
  by (auto simp: in_set_enumerate_eq)

text \<open>The canvas of a run whose collection and size pass succeed, on a grid of positive
  size: the loop runs to its end from the new canvas.\<close>

lemma run_canvas:
  assumes "confirm_overwrite w output = (None, w1)"
    and "collect (fs w1) directory grid_rows grid_cols = Inr image_files"
    and "max_image_size (fs w1) image_files 0 = Inr cell_size"
    and "open_fill w1 fill cell_size = Inr fo"
    and "0 \<le> grid_rows" and "0 < grid_cols"
  shows "\<exists>result w2.
           stitch_loop colorkey process_colorkey fo verbose grid_cols cell_size
             (enumerate 0 image_files)
             \<lparr>width = cell_size * nat grid_cols, height = cell_size * nat grid_rows,
              pixels = replicate (cell_size * nat grid_cols * (cell_size * nat grid_rows))
                         transparent\<rparr> w1
           = (None, result, w2)
         \<and> canvas (stitch_images w directory output fill reduce verbose colorkey
               process_colorkey grid_rows grid_cols) = Some result"
proof -
  let ?c0 = "\<lparr>width = cell_size * nat grid_cols, height = cell_size * nat grid_rows,
              pixels = replicate (cell_size * nat grid_cols * (cell_size * nat grid_rows))
                         transparent\<rparr>"
  have new: "image_new (int cell_size * grid_cols) (int cell_size * grid_rows) = Inr ?c0"
    using assms(5,6) by (simp add: image_new_canvas)
  have "\<forall>p \<in> set (enumerate 0 image_files). \<exists>img. image_open (fs w1) (snd p) = Inr img"
    using max_image_size_opens [OF assms(3)] in_set_enumerate_snd by fastforce
  from stitch_loop_runs [OF _ this, of grid_cols colorkey process_colorkey fo verbose cell_size ?c0]
    assms(6)
  obtain result w2 where loop:
    "stitch_loop colorkey process_colorkey fo verbose grid_cols cell_size
             (enumerate 0 image_files) ?c0 w1 = (None, result, w2)"
    by auto
  have "canvas (stitch_images w directory output fill reduce verbose colorkey
               process_colorkey grid_rows grid_cols) = Some result"
    using assms(1-4) new loop
    by (simp add: stitch_images_def stitch_from_def split: prod.splits)
  with loop show ?thesis by blast
qed

text \<open>
  C5: on a grid of positive size, once the files are collected and measured, the canvas
  is created \<open>cell_size * grid_cols\<close> wide and \<open>cell_size * grid_rows\<close> high with every
  pixel \<open>(0, 0, 0, 0)\<close>, and the canvas of the run, whatever happens later, has these
  dimensions and that many pixels.
\<close>

theorem canvas_dimensions:
  assumes "confirm_overwrite w output = (None, w1)"
    and "collect (fs w1) directory grid_rows grid_cols = Inr image_files"
    and "max_image_size (fs w1) image_files 0 = Inr cell_size"
    and "0 < grid_rows" and "0 < grid_cols"
  shows "image_new (int cell_size * grid_cols) (int cell_size * grid_rows) =
           Inr \<lparr>width = cell_size * nat grid_cols, height = cell_size * nat grid_rows,
                pixels = replicate (cell_size * nat grid_cols * (cell_size * nat grid_rows))
                           transparent\<rparr>
       \<and> (\<exists>result. canvas (stitch_images w directory output fill reduce verbose colorkey
                       process_colorkey grid_rows grid_cols) = Some result
            \<and> int (width result) = grid_cols * int cell_size
            \<and> int (height result) = grid_rows * int cell_size
            \<and> length (pixels result) = width result * height result)"
proof -
  let ?c0 = "\<lparr>width = cell_size * nat grid_cols, height = cell_size * nat grid_rows,
              pixels = replicate (cell_size * nat grid_cols * (cell_size * nat grid_rows))
                         transparent\<rparr>"
  let ?run = "stitch_images w directory output fill reduce verbose colorkey
                       process_colorkey grid_rows grid_cols"
  have new: "image_new (int cell_size * grid_cols) (int cell_size * grid_rows) = Inr ?c0"
    using assms(4,5) by (simp add: image_new_canvas)
  have dims: "int (width ?c0) = grid_cols * int cell_size"
      "int (height ?c0) = grid_rows * int cell_size"
      "length (pixels ?c0) = width ?c0 * height ?c0"
    using assms(4,5) by simp_all
  have "\<exists>result. canvas ?run = Some result \<and> width result = width ?c0
          \<and> height result = height ?c0 \<and> length (pixels result) = length (pixels ?c0)"
  proof (cases "open_fill w1 fill cell_size")
    case (Inl e)
    then have "canvas ?run = Some ?c0"
      using assms(1-3) new by (simp add: stitch_images_def stitch_from_def)
    then show ?thesis by simp
  next
    case (Inr fo)
    from assms(4) have "0 \<le> grid_rows" by simp
    from run_canvas [OF assms(1-3) Inr this assms(5)]
    obtain result w2 where
      loop: "stitch_loop colorkey process_colorkey fo verbose grid_cols cell_size
               (enumerate 0 image_files) ?c0 w1 = (None, result, w2)"
      and c: "canvas ?run = Some result"
      by blast
    from stitch_loop_frame [OF loop] c show ?thesis by simp
  qed
  with new dims show ?thesis by auto
qed


lemma ex_sorted: "sort [''in/b.png'', ''in/a.png''] = [''in/a.png'', ''in/b.png'']"
  by simp

lemma ex_world_collect:
  "collect (fs ex_world) ''in'' 2 2 = Inr [''in/a.png'', ''in/b.png'']"
  by (simp add: collect_def ex_world_glob_in ex_sorted)

lemma ex_world_opens:
  "image_open (fs ex_world) ''in/a.png'' = Inr ex_tall"
  "image_open (fs ex_world) ''in/b.png'' = Inr ex_dot"
  by (simp_all add: image_open_def lookup_def ex_world_def ex_tree_def all_sep_def)

lemma ex_world_size:
  "max_image_size (fs ex_world) [''in/a.png'', ''in/b.png''] 0 = Inr 3"
  by (simp add: ex_world_opens ex_tall_def ex_dot_def)

theorem canvas_dimensions_witness:
  "\<exists>result. canvas (stitch_images ex_world ''in'' ''out/new.png'' None False False
                       [255, 0, 228] False 2 2) = Some result
            \<and> int (width result) = 2 * int 3
            \<and> int (height result) = 2 * int 3
            \<and> length (pixels result) = width result * height result"
proof -
  have r: "(0 :: int) < 2" by simp
  note T = canvas_dimensions [OF ex_world_no_prompt ex_world_collect ex_world_size r r,
      of None False False "[255, 0, 228]" False]
  from conjunct2 [OF T] show ?thesis .
qed

section \<open>The destination directory\<close>

lemma dirname_no_sep: "CHR ''/'' \<notin> set p \<Longrightarrow> dirname p = []"
  by (auto simp: dirname_def Let_def dropWhile_eq_Nil_conv)

lemma makedirs_empty: "makedirs t [] = (Some FileNotFoundError, t)"
  by (simp add: split_dir_def path_split_def Let_def mkdir_exist_ok_def mkdir_def isdir_def
      lookup_def)

lemma finish_empty_dirname:
  "dirname output = [] \<Longrightarrow> finish w result output reduce verbose = (Some FileNotFoundError, w)"
  by (simp add: finish_def makedirs_empty del: makedirs.simps)

text \<open>
  C9: for an output path without a directory component, \<open>os.path.dirname\<close> is the empty
  string, \<open>os.makedirs\<close> of the empty string raises \<open>FileNotFoundError\<close> and creates
  nothing, so line 124 ends the run with that exception before the canvas is saved:
  no run with such an output path completes.
\<close>

theorem output_without_directory_fails:
  assumes "CHR ''/'' \<notin> set output"
  shows "dirname output = []
       \<and> makedirs t (dirname output) = (Some FileNotFoundError, t)
       \<and> finish w result output reduce verbose = (Some FileNotFoundError, w)
       \<and> raised (stitch_images w directory output fill reduce verbose colorkey
                   process_colorkey grid_rows grid_cols) \<noteq> None"
proof -
  have d: "dirname output = []" using assms by (rule dirname_no_sep)
  have f: "\<And>w result. finish w result output reduce verbose = (Some FileNotFoundError, w)"
    using d by (rule finish_empty_dirname)
  have "raised (stitch_from w1 directory output fill reduce verbose colorkey
                   process_colorkey grid_rows grid_cols) \<noteq> None" for w1
    by (simp add: stitch_from_def f split: sum.splits prod.splits option.splits)
  then have "raised (stitch_images w directory output fill reduce verbose colorkey
                   process_colorkey grid_rows grid_cols) \<noteq> None"
    by (simp add: stitch_images_def split: prod.splits option.splits)
  with d f show ?thesis by (simp add: makedirs_empty del: makedirs.simps)
qed

theorem output_without_directory_fails_witness:
  "output_path ''image_stitch.py'' ''output.png'' = ''output.png'' \<and>
   CHR ''/'' \<notin> set ''output.png'' \<and>
   finish ex_world ex_dot ''output.png'' False False = (Some FileNotFoundError, ex_world) \<and>
   raised (stitch_images ex_world ''in'' ''output.png'' None False False [255, 0, 228]
             False 2 2) \<noteq> None"
proof -
  have h: "CHR ''/'' \<notin> set ''output.png''" by simp
  have p: "output_path ''image_stitch.py'' ''output.png'' = ''output.png''"
    by (simp add: output_path_def path_join_def dirname_def)
  from output_without_directory_fails [OF h, of _ ex_world ex_dot False False "''in''" None
      "[255, 0, 228]" False 2 2] h p
  show ?thesis by blast
qed

end
